theory Spec2Isabelle
  imports Main "HOL-Library.AList"
begin

section \<open>Errors\<close>

text \<open>
  Every exception the modelled code can raise is a value.  \<open>Error msg\<close> is a plain
  JavaScript \<open>Error\<close> with its message, \<open>MissingSecret msg\<close> the class of that name
  from \<open>errors.js\<close>, \<open>TypeError\<close> and \<open>URIError\<close> are the built-in classes raised by the
  language itself (a property read on \<open>null\<close>, a malformed percent escape), and the
  remaining constructors are what the third-party libraries raise.
\<close>

datatype error =
    Error string
  | MissingSecret string
  | TypeError
  | URIError
  | JWTExpired
  | JWTClaimValidationFailed string
  | LibraryError string

section \<open>JavaScript built-ins used by the sources\<close>

subsection \<open>\<open>decodeURIComponent\<close>\<close>

text \<open>
  Strings are sequences of bytes, the UTF-8 form of the JavaScript string.
  \<open>decodeURIComponent\<close> replaces every escape \<open>%XX\<close> by the byte it denotes.  It raises
  a \<open>URIError\<close> when a \<open>%\<close> is not followed by two hexadecimal digits, or when
  the escaped bytes from \<open>0x80\<close> upwards are not the UTF-8 encoding of code points, each
  encoding written as escapes only.  The string is first cut into literal characters and
  escapes, then the escapes are grouped into code points.
\<close>

definition hexval :: "char \<Rightarrow> nat option" where
  "hexval c =
     (let n = (of_char c :: nat) in
      if 48 \<le> n \<and> n \<le> 57 then Some (n - 48)
      else if 65 \<le> n \<and> n \<le> 70 then Some (n - 55)
      else if 97 \<le> n \<and> n \<le> 102 then Some (n - 87)
      else None)"

datatype uri_unit = Lit char | Esc nat | Bad

fun escapes :: "string \<Rightarrow> uri_unit list" where
  "escapes [] = []"
| "escapes (c # h # l # rest) =
     (if c = CHR ''%'' then
        (case (hexval h, hexval l) of
           (Some a, Some b) \<Rightarrow> Esc (16 * a + b) # escapes rest
         | _ \<Rightarrow> [Bad])
      else Lit c # escapes (h # l # rest))"
| "escapes (c # cs) = (if c = CHR ''%'' then [Bad] else Lit c # escapes cs)"

definition leading_ones :: "nat \<Rightarrow> nat" where
  "leading_ones b =
     (if b < 128 then 0 else if b < 192 then 1 else if b < 224 then 2
      else if b < 240 then 3 else if b < 248 then 4 else 5)"

definition continuation :: "nat \<Rightarrow> bool" where
  "continuation b \<longleftrightarrow> 128 \<le> b \<and> b \<le> 191"

fun valid_utf8 :: "nat list \<Rightarrow> bool" where
  "valid_utf8 [b0, b1] \<longleftrightarrow> 194 \<le> b0 \<and> b0 \<le> 223 \<and> continuation b1"
| "valid_utf8 [b0, b1, b2] \<longleftrightarrow>
     224 \<le> b0 \<and> b0 \<le> 239 \<and>
     (if b0 = 224 then 160 \<le> b1 \<and> b1 \<le> 191
      else if b0 = 237 then 128 \<le> b1 \<and> b1 \<le> 159
      else continuation b1) \<and>
     continuation b2"
| "valid_utf8 [b0, b1, b2, b3] \<longleftrightarrow>
     240 \<le> b0 \<and> b0 \<le> 244 \<and>
     (if b0 = 240 then 144 \<le> b1 \<and> b1 \<le> 191
      else if b0 = 244 then 128 \<le> b1 \<and> b1 \<le> 143
      else continuation b1) \<and>
     continuation b2 \<and> continuation b3"
| "valid_utf8 _ \<longleftrightarrow> False"

fun esc_bytes :: "uri_unit list \<Rightarrow> nat list option" where
  "esc_bytes [] = Some []"
| "esc_bytes (Esc b # us) = map_option ((#) b) (esc_bytes us)"
| "esc_bytes (_ # us) = None"

function decode_units :: "uri_unit list \<Rightarrow> error + string" where
  "decode_units [] = Inr []"
| "decode_units (Bad # us) = Inl URIError"
| "decode_units (Lit c # us) = map_sum id ((#) c) (decode_units us)"
| "decode_units (Esc b # us) =
     (let n = leading_ones b in
      if n = 0 then map_sum id ((#) (char_of b)) (decode_units us)
      else if n = 1 \<or> n > 4 \<or> length us < n - 1 then Inl URIError
      else
        (case esc_bytes (take (n - 1) us) of
           None \<Rightarrow> Inl URIError
         | Some bs \<Rightarrow>
             if valid_utf8 (b # bs)
             then map_sum id ((@) (map char_of (b # bs))) (decode_units (drop (n - 1) us))
             else Inl URIError))"
  by pat_completeness auto
termination
  by (relation "measure length") auto

definition decodeURIComponent :: "string \<Rightarrow> error + string" where
  "decodeURIComponent s = decode_units (escapes s)"


subsection \<open>\<open>split\<close> on a separator character\<close>

text \<open>The pieces between the separators; a string without separator is one piece.\<close>

fun split_on :: "char \<Rightarrow> string \<Rightarrow> string list" where
  "split_on d [] = [[]]"
| "split_on d (c # cs) =
     (case split_on d cs of
        [] \<Rightarrow> [[c]]
      | p # ps \<Rightarrow> if c = d then [] # p # ps else (c # p) # ps)"

subsection \<open>\<open>startsWith\<close> and \<open>| 0\<close>\<close>

definition startsWith :: "string \<Rightarrow> string \<Rightarrow> bool" where
  "startsWith s p \<longleftrightarrow> take (length p) s = p"

text \<open>
  \<open>ToInt32\<close> is the conversion behind the bitwise operators: the value modulo \<open>2^32\<close>,
  read as a signed 32-bit integer.  \<open>x | 0\<close> applies it to \<open>x\<close> with its fraction cut off.
\<close>

definition ToInt32 :: "int \<Rightarrow> int" where
  "ToInt32 x = (x + 2147483648) mod 4294967296 - 2147483648"

definition truncate_div :: "int \<Rightarrow> int \<Rightarrow> int" where
  "truncate_div a b = (if 0 \<le> a then a div b else - ((- a) div b))"

section \<open>JSON values and JWT claims\<close>

text \<open>
  A payload is a JSON object: its members in order, each key once.  Numbers are the
  integers (all the numbers the code computes are whole seconds).
\<close>

datatype json =
    JNull
  | JBool bool
  | JNum int
  | JStr string
  | JArr "json list"
  | JObj "(string \<times> json) list"

type_synonym claims = "(string \<times> json) list"

section \<open>The third-party libraries \<open>@panva/hkdf\<close> and \<open>jose\<close>\<close>

text \<open>
  The cryptography is not part of the repository.  It enters the model as a parameter
  \<open>L\<close>: the key derivation \<open>hkdf digest ikm salt info keylen\<close>, and the compact JWE
  serialisation of a claims set under a key and a protected header with its inverse.
  Each may fail.  Around them the \<open>jose\<close> classes do what their documentation says:
  \<open>EncryptJWT\<close> collects the claims and the header, the setters overwrite one claim
  each, and \<open>jwtDecrypt\<close> validates the \<open>iat\<close>, \<open>nbf\<close> and \<open>exp\<close> claims of the decrypted
  payload against the clock, with the tolerance it is given.
\<close>

record jwe_header =
  alg :: string
  enc :: string

record crypto =
  hkdf :: "string \<Rightarrow> string \<Rightarrow> string \<Rightarrow> string \<Rightarrow> nat \<Rightarrow> error + string"
  compactEncrypt :: "string \<Rightarrow> jwe_header \<Rightarrow> claims \<Rightarrow> error + string"
  compactDecrypt :: "string \<Rightarrow> string \<Rightarrow> error + jwe_header \<times> claims"

record EncryptJWT =
  the_payload :: claims
  the_protectedHeader :: "jwe_header option"

text \<open>The clock \<open>Date_now\<close> counts milliseconds; \<open>jose\<close> reads it in whole seconds.\<close>

definition epoch :: "int \<Rightarrow> int" where
  "epoch Date_now = Date_now div 1000"

definition new_EncryptJWT :: "claims \<Rightarrow> EncryptJWT" where
  "new_EncryptJWT p = \<lparr>the_payload = p, the_protectedHeader = None\<rparr>"

definition setProtectedHeader :: "jwe_header \<Rightarrow> EncryptJWT \<Rightarrow> EncryptJWT" where
  "setProtectedHeader h j = j\<lparr>the_protectedHeader := Some h\<rparr>"

definition setIssuedAt :: "int \<Rightarrow> EncryptJWT \<Rightarrow> EncryptJWT" where
  "setIssuedAt Date_now j =
     j\<lparr>the_payload := AList.update ''iat'' (JNum (epoch Date_now)) (the_payload j)\<rparr>"

definition setExpirationTime :: "int \<Rightarrow> EncryptJWT \<Rightarrow> EncryptJWT" where
  "setExpirationTime t j = j\<lparr>the_payload := AList.update ''exp'' (JNum t) (the_payload j)\<rparr>"

definition setJti :: "string \<Rightarrow> EncryptJWT \<Rightarrow> EncryptJWT" where
  "setJti i j = j\<lparr>the_payload := AList.update ''jti'' (JStr i) (the_payload j)\<rparr>"

definition encrypt :: "crypto \<Rightarrow> string \<Rightarrow> EncryptJWT \<Rightarrow> error + string" where
  "encrypt L key j =
     (case the_protectedHeader j of
        None \<Rightarrow> Inl (LibraryError ''JWEInvalid'')
      | Some h \<Rightarrow> compactEncrypt L key h (the_payload j))"

definition check_iat :: "claims \<Rightarrow> error option" where
  "check_iat p =
     (case map_of p ''iat'' of
        None \<Rightarrow> None
      | Some (JNum _) \<Rightarrow> None
      | Some _ \<Rightarrow> Some (JWTClaimValidationFailed ''iat''))"

definition check_nbf :: "int \<Rightarrow> int \<Rightarrow> claims \<Rightarrow> error option" where
  "check_nbf tolerance t p =
     (case map_of p ''nbf'' of
        None \<Rightarrow> None
      | Some (JNum n) \<Rightarrow>
          if n > t + tolerance then Some (JWTClaimValidationFailed ''nbf'') else None
      | Some _ \<Rightarrow> Some (JWTClaimValidationFailed ''nbf''))"

definition check_exp :: "int \<Rightarrow> int \<Rightarrow> claims \<Rightarrow> error option" where
  "check_exp tolerance t p =
     (case map_of p ''exp'' of
        None \<Rightarrow> None
      | Some (JNum e) \<Rightarrow> if e \<le> t - tolerance then Some JWTExpired else None
      | Some _ \<Rightarrow> Some (JWTClaimValidationFailed ''exp''))"

definition validate_claims :: "int \<Rightarrow> int \<Rightarrow> claims \<Rightarrow> error + claims" where
  "validate_claims tolerance Date_now p =
     (case check_iat p of
        Some e \<Rightarrow> Inl e
      | None \<Rightarrow>
          (case check_nbf tolerance (epoch Date_now) p of
             Some e \<Rightarrow> Inl e
           | None \<Rightarrow>
               (case check_exp tolerance (epoch Date_now) p of
                  Some e \<Rightarrow> Inl e
                | None \<Rightarrow> Inr p)))"

definition jwtDecrypt :: "crypto \<Rightarrow> int \<Rightarrow> string \<Rightarrow> string \<Rightarrow> int \<Rightarrow> error + claims" where
  "jwtDecrypt L Date_now jwt key clockTolerance =
     (case compactDecrypt L key jwt of
        Inl e \<Rightarrow> Inl e
      | Inr (h, p) \<Rightarrow> validate_claims clockTolerance Date_now p)"

section \<open>\<open>jwt.ts\<close>\<close>

definition DEFAULT_MAX_AGE :: int where
  "DEFAULT_MAX_AGE = 30 * 24 * 60 * 60"

text \<open>\<^verbatim>\<open>const now = () => (Date.now() / 1000) | 0\<close>\<close>

definition now :: "int \<Rightarrow> int" where
  "now Date_now = ToInt32 (truncate_div Date_now 1000)"

text \<open>
  \<^verbatim>\<open>
  async function getDerivedEncryptionKey(secret: string) {
    return await hkdf("sha256", secret, "", "Auth.js Generated Encryption Key", 32)
  }
  \<close>
\<close>

definition getDerivedEncryptionKey :: "crypto \<Rightarrow> string \<Rightarrow> error + string" where
  "getDerivedEncryptionKey L secret =
     hkdf L ''sha256'' secret '''' ''Auth.js Generated Encryption Key'' 32"

record JWTEncodeParams =
  enc_token :: "claims option"
  enc_secret :: string
  enc_maxAge :: "int option"

record JWTDecodeParams =
  dec_token :: "string option"
  dec_secret :: string

text \<open>
  \<^verbatim>\<open>
  export async function encode(params) {
    const { token = {}, secret, maxAge = DEFAULT_MAX_AGE } = params
    const encryptionSecret = await getDerivedEncryptionKey(secret)
    return await new EncryptJWT(token)
      .setProtectedHeader({ alg: "dir", enc: "A256GCM" })
      .setIssuedAt()
      .setExpirationTime(now() + maxAge)
      .setJti(crypto.randomUUID())
      .encrypt(encryptionSecret)
  }
  \<close>
  The clock and the fresh UUID are inputs of the model.  Within one call the clock is
  read once: \<open>setIssuedAt\<close> and \<open>now\<close> see the same instant.
\<close>

definition issue :: "int \<Rightarrow> string \<Rightarrow> claims \<Rightarrow> int \<Rightarrow> EncryptJWT" where
  "issue Date_now randomUUID token maxAge =
     setJti randomUUID
       (setExpirationTime (now Date_now + maxAge)
          (setIssuedAt Date_now
             (setProtectedHeader \<lparr>alg = ''dir'', enc = ''A256GCM''\<rparr>
                (new_EncryptJWT token))))"

definition encode :: "crypto \<Rightarrow> int \<Rightarrow> string \<Rightarrow> JWTEncodeParams \<Rightarrow> error + string" where
  "encode L Date_now randomUUID params =
     (let token = (case enc_token params of None \<Rightarrow> [] | Some t \<Rightarrow> t);
          secret = enc_secret params;
          maxAge = (case enc_maxAge params of None \<Rightarrow> DEFAULT_MAX_AGE | Some m \<Rightarrow> m)
      in case getDerivedEncryptionKey L secret of
           Inl e \<Rightarrow> Inl e
         | Inr encryptionSecret \<Rightarrow>
             encrypt L encryptionSecret (issue Date_now randomUUID token maxAge))"

text \<open>
  \<^verbatim>\<open>
  export async function decode(params) {
    const { token, secret } = params
    if (!token) return null
    const encryptionSecret = await getDerivedEncryptionKey(secret)
    const { payload } = await jwtDecrypt(token, encryptionSecret, { clockTolerance: 15 })
    return payload
  }
  \<close>
  \<open>null\<close> is \<open>None\<close>; a token that is absent or empty is falsy.
\<close>

definition decode :: "crypto \<Rightarrow> int \<Rightarrow> JWTDecodeParams \<Rightarrow> error + claims option" where
  "decode L Date_now params =
     (case dec_token params of
        None \<Rightarrow> Inr None
      | Some token \<Rightarrow>
          if token = [] then Inr None
          else
            (case getDerivedEncryptionKey L (dec_secret params) of
               Inl e \<Rightarrow> Inl e
             | Inr encryptionSecret \<Rightarrow>
                 (case jwtDecrypt L Date_now token encryptionSecret 15 of
                    Inl e \<Rightarrow> Inl e
                  | Inr payload \<Rightarrow> Inr (Some payload))))"

text \<open>
  The request of \<open>getToken\<close>: its cookies, which only the session store reads, and the
  value of its \<open>authorization\<close> header (\<open>req.headers.get("authorization")\<close> on a
  \<open>Headers\<close> object, \<open>req.headers.authorization\<close> on a plain one), \<open>None\<close> when there is
  no such header.
\<close>

record 'c request =
  cookies :: 'c
  authorization :: "string option"

record environment =
  NEXTAUTH_URL :: "string option"
  VERCEL :: "string option"
  AUTH_SECRET :: "string option"

record 'c GetTokenParams =
  gt_req :: "'c request option"
  gt_secureCookie :: "bool option"
  gt_cookieName :: "string option"
  gt_raw :: "bool option"
  gt_decode :: "(JWTDecodeParams \<Rightarrow> error + claims option) option"
  gt_secret :: "string option"

text \<open>What \<open>getToken\<close> returns: \<open>null\<close>, the raw token, or the decoded payload.\<close>

datatype token_result = Null | Raw string | Payload claims

definition truthy :: "string option \<Rightarrow> bool" where
  "truthy s \<longleftrightarrow> (case s of None \<Rightarrow> False | Some v \<Rightarrow> v \<noteq> [])"

text \<open>
  \<^verbatim>\<open>
  secureCookie = process.env.NEXTAUTH_URL?.startsWith("https://") ?? !!process.env.VERCEL,
  cookieName = secureCookie ? "__Secure-next-auth.session-token" : "next-auth.session-token",
  secret = process.env.AUTH_SECRET,
  \<close>
\<close>

definition default_secureCookie :: "environment \<Rightarrow> bool" where
  "default_secureCookie env =
     (case NEXTAUTH_URL env of
        Some u \<Rightarrow> startsWith u ''https://''
      | None \<Rightarrow> truthy (VERCEL env))"

definition the_secureCookie :: "environment \<Rightarrow> 'c GetTokenParams \<Rightarrow> bool" where
  "the_secureCookie env params =
     (case gt_secureCookie params of Some b \<Rightarrow> b | None \<Rightarrow> default_secureCookie env)"

definition the_cookieName :: "environment \<Rightarrow> 'c GetTokenParams \<Rightarrow> string" where
  "the_cookieName env params =
     (case gt_cookieName params of
        Some n \<Rightarrow> n
      | None \<Rightarrow>
          if the_secureCookie env params then ''__Secure-next-auth.session-token''
          else ''next-auth.session-token'')"

definition the_secret :: "environment \<Rightarrow> 'c GetTokenParams \<Rightarrow> string option" where
  "the_secret env params =
     (case gt_secret params of Some s \<Rightarrow> Some s | None \<Rightarrow> AUTH_SECRET env)"

text \<open>
  \<^verbatim>\<open>
  if (!token && authorizationHeader?.split(" ")[0] === "Bearer") {
    const urlEncodedToken = authorizationHeader.split(" ")[1]
    token = decodeURIComponent(urlEncodedToken)
  }
  \<close>
  \<open>split\<close> always yields a first piece.  A header without a second piece gives
  \<open>undefined\<close>, which \<open>decodeURIComponent\<close> turns into the string \<open>undefined\<close>.
\<close>

definition is_Bearer :: "string option \<Rightarrow> bool" where
  "is_Bearer authorizationHeader \<longleftrightarrow>
     (case authorizationHeader of
        None \<Rightarrow> False
      | Some h \<Rightarrow> (case split_on CHR '' '' h of [] \<Rightarrow> False | w # _ \<Rightarrow> w = ''Bearer''))"

definition urlEncodedToken :: "string \<Rightarrow> string option" where
  "urlEncodedToken h =
     (case split_on CHR '' '' h of _ # u # _ \<Rightarrow> Some u | _ \<Rightarrow> None)"

definition bearer_token :: "string option \<Rightarrow> error + string" where
  "bearer_token authorizationHeader =
     (case authorizationHeader of
        None \<Rightarrow> Inl TypeError
      | Some h \<Rightarrow>
          decodeURIComponent
            (case urlEncodedToken h of None \<Rightarrow> ''undefined'' | Some u \<Rightarrow> u))"

text \<open>
  \<^verbatim>\<open>
  if (!token) return null
  if (raw) return token
  try { return await _decode({ token, secret }) } catch { return null }
  \<close>
\<close>

definition return_token ::
    "(JWTDecodeParams \<Rightarrow> error + claims option) \<Rightarrow> bool \<Rightarrow> string \<Rightarrow> string \<Rightarrow> token_result"
  where
  "return_token decode' raw secret token =
     (if token = [] then Null
      else if raw then Raw token
      else
        (case decode' \<lparr>dec_token = Some token, dec_secret = secret\<rparr> of
           Inl _ \<Rightarrow> Null
         | Inr None \<Rightarrow> Null
         | Inr (Some p) \<Rightarrow> Payload p))"

text \<open>
  \<open>getToken\<close>.  The class \<open>SessionStore\<close> of \<open>lib/cookie.js\<close> is a parameter:
  \<open>sessionStore name secure req\<close> is the \<open>value\<close> of the store built for the cookie
  name, the \<open>secure\<close> option and the request.
\<close>

definition getToken ::
    "(string \<Rightarrow> bool \<Rightarrow> 'c request \<Rightarrow> string) \<Rightarrow> crypto \<Rightarrow> environment \<Rightarrow> int \<Rightarrow>
     'c GetTokenParams \<Rightarrow> error + token_result" where
  "getToken sessionStore L env Date_now params =
     (let secureCookie = the_secureCookie env params;
          cookieName = the_cookieName env params;
          raw = (gt_raw params = Some True);
          decode' = (case gt_decode params of Some d \<Rightarrow> d | None \<Rightarrow> decode L Date_now)
      in case gt_req params of
           None \<Rightarrow> Inl (Error ''Must pass `req` to JWT getToken()'')
         | Some req \<Rightarrow>
             if \<not> truthy (the_secret env params)
             then Inl (MissingSecret ''Must pass `secret` if not set to JWT getToken()'')
             else
               (let secret = the (the_secret env params);
                    token = sessionStore cookieName secureCookie req;
                    authorizationHeader = authorization req
                in if token = [] \<and> is_Bearer authorizationHeader
                   then
                     (case bearer_token authorizationHeader of
                        Inl e \<Rightarrow> Inl e
                      | Inr token' \<Rightarrow> Inr (return_token decode' raw secret token'))
                   else Inr (return_token decode' raw secret token)))"

section \<open>More built-ins: \<open>join\<close>, \<open>indexOf\<close>, \<open>substring\<close>, string conversion, \<open>URLSearchParams\<close>\<close>

fun join :: "string \<Rightarrow> string list \<Rightarrow> string" where
  "join sep [] = []"
| "join sep [x] = x"
| "join sep (x # y # ys) = x @ sep @ join sep (y # ys)"

text \<open>\<open>indexOf\<close> is the position of the first occurrence, \<open>-1\<close> when there is none.\<close>

fun indexOf :: "string \<Rightarrow> char \<Rightarrow> int" where
  "indexOf [] c = - 1"
| "indexOf (x # xs) c =
     (if x = c then 0 else (let i = indexOf xs c in if i < 0 then - 1 else i + 1))"

text \<open>\<open>substring\<close> clamps both ends to the string and swaps them when out of order.\<close>

definition substring :: "string \<Rightarrow> int \<Rightarrow> int \<Rightarrow> string" where
  "substring s a b =
     (let n = int (length s);
          a' = min (max a 0) n;
          b' = min (max b 0) n;
          lo = min a' b';
          hi = max a' b'
      in take (nat (hi - lo)) (drop (nat lo) s))"

fun digits :: "nat \<Rightarrow> string" where
  "digits n =
     (if n < 10 then [char_of (48 + n)] else digits (n div 10) @ [char_of (48 + n mod 10)])"

text \<open>
  The decimal digits of a whole number.  This is how JavaScript prints the whole numbers
  of a magnitude below \<open>10^21\<close>; from there on it prints an exponent, which is not
  modelled.
\<close>

definition show_int :: "int \<Rightarrow> string" where
  "show_int i = (if i < 0 then CHR ''-'' # digits (nat (- i)) else digits (nat i))"

text \<open>
  The conversion of a value to a string.  \<open>None\<close> is \<open>undefined\<close>.  An array is the
  list of its elements separated by commas, \<open>null\<close> elements left empty.
\<close>

fun ToString :: "json \<Rightarrow> string" where
  "ToString JNull = ''null''"
| "ToString (JBool b) = (if b then ''true'' else ''false'')"
| "ToString (JNum n) = show_int n"
| "ToString (JStr s) = s"
| "ToString (JArr xs) = join '','' (map (\<lambda>x. if x = JNull then [] else ToString x) xs)"
| "ToString (JObj ms) = ''[object Object]''"

definition ToString_opt :: "json option \<Rightarrow> string" where
  "ToString_opt v = (case v of None \<Rightarrow> ''undefined'' | Some j \<Rightarrow> ToString j)"

text \<open>
  Reading a property in a destructuring pattern: \<open>null\<close> raises a \<open>TypeError\<close>, an
  object gives the member or \<open>undefined\<close>, and the other values have no such property.
\<close>

definition get_property :: "json \<Rightarrow> string \<Rightarrow> error + json option" where
  "get_property j k =
     (case j of
        JNull \<Rightarrow> Inl TypeError
      | JObj ms \<Rightarrow> Inr (map_of ms k)
      | _ \<Rightarrow> Inr None)"

text \<open>
  \<open>URLSearchParams\<close> is a list of pairs of strings.  Its string form is the
  \<open>application/x-www-form-urlencoded\<close> serialisation: letters, digits and \<open>*-._\<close> stay,
  a space becomes \<open>+\<close>, every other byte becomes \<open>%XX\<close>.
\<close>

definition hexdigit :: "nat \<Rightarrow> char" where
  "hexdigit n = (if n < 10 then char_of (48 + n) else char_of (55 + n))"

definition form_unreserved :: "char \<Rightarrow> bool" where
  "form_unreserved c \<longleftrightarrow>
     (let n = (of_char c :: nat) in
      (48 \<le> n \<and> n \<le> 57) \<or> (65 \<le> n \<and> n \<le> 90) \<or> (97 \<le> n \<and> n \<le> 122) \<or>
      c \<in> {CHR ''*'', CHR ''-'', CHR ''.'', CHR ''_''})"

definition form_encode_byte :: "char \<Rightarrow> string" where
  "form_encode_byte c =
     (if form_unreserved c then [c]
      else if c = CHR '' '' then ''+''
      else [CHR ''%'', hexdigit (of_char c div 16), hexdigit (of_char c mod 16)])"

definition form_encode :: "string \<Rightarrow> string" where
  "form_encode s = concat (map form_encode_byte s)"

definition URLSearchParams_toString :: "(string \<times> string) list \<Rightarrow> string" where
  "URLSearchParams_toString ps =
     join ''&'' (map (\<lambda>(k, v). form_encode k @ ''='' @ form_encode v) ps)"

text \<open>
  \<open>new URLSearchParams(record)\<close> takes the members of the record in order and converts
  each value to a string.
\<close>

definition URLSearchParams_of_record :: "(string \<times> json option) list \<Rightarrow> (string \<times> string) list" where
  "URLSearchParams_of_record r = map (\<lambda>(k, v). (k, ToString_opt v)) r"

section \<open>The SvelteKit client helpers \<open>signIn\<close> and \<open>signOut\<close>\<close>

text \<open>
  A call of \<open>fetch\<close> is a request: its URL, the method, the headers and the body of its
  \<open>init\<close> argument (a \<open>URLSearchParams\<close> object, sent as a form).  The network is a
  parameter \<open>net\<close>: it gives, for a request, the JSON value of the response, or the
  error with which \<open>fetch\<close> or \<open>json()\<close> rejects.  The helpers return what they got from
  their last \<open>fetch\<close> together with the requests they issued, in order.  What they do
  to \<open>window.location\<close> afterwards issues no request and is left out.
\<close>

record fetch_request =
  rq_url :: string
  rq_method :: string
  rq_headers :: "(string \<times> string) list"
  rq_body :: "(string \<times> string) list option"

definition fetch_get :: "string \<Rightarrow> fetch_request" where
  "fetch_get u = \<lparr>rq_url = u, rq_method = ''GET'', rq_headers = [], rq_body = None\<rparr>"

definition form_post :: "string \<Rightarrow> (string \<times> string) list \<Rightarrow> fetch_request" where
  "form_post u b =
     \<lparr>rq_url = u, rq_method = ''post'',
      rq_headers = [(''Content-Type'', ''application/x-www-form-urlencoded''),
                    (''X-Auth-Return-Redirect'', ''1'')],
      rq_body = Some b\<rparr>"

text \<open>
  \<^verbatim>\<open>
  const isCredentials = providerId === "credentials"
  const basePath = base ?? ""
  const signInUrl = `${basePath}/auth/${isCredentials ? "callback" : "signin"}/${providerId}`
  const _signInUrl = `${signInUrl}?${new URLSearchParams(authorizationParams)}`
  \<close>
  A \<open>providerId\<close> that is \<open>undefined\<close> prints as \<open>undefined\<close>.
\<close>

definition basePath :: "string option \<Rightarrow> string" where
  "basePath base = (case base of None \<Rightarrow> [] | Some b \<Rightarrow> b)"

definition signInUrl :: "string option \<Rightarrow> string option \<Rightarrow> string" where
  "signInUrl base providerId =
     basePath base @ ''/auth/'' @
     (if providerId = Some ''credentials'' then ''callback'' else ''signin'') @ ''/'' @
     (case providerId of None \<Rightarrow> ''undefined'' | Some p \<Rightarrow> p)"

definition signInUrl_with_params ::
    "string option \<Rightarrow> string option \<Rightarrow> (string \<times> string) list option \<Rightarrow> string" where
  "signInUrl_with_params base providerId authorizationParams =
     signInUrl base providerId @ ''?'' @
     URLSearchParams_toString (case authorizationParams of None \<Rightarrow> [] | Some ps \<Rightarrow> ps)"

text \<open>
  \<^verbatim>\<open>
  const { callbackUrl = window.location.href, redirect = true } = options ?? {}
  \<close>
\<close>

definition the_callbackUrl :: "string \<Rightarrow> (string \<times> json) list option \<Rightarrow> json" where
  "the_callbackUrl href options =
     (case options of
        None \<Rightarrow> JStr href
      | Some ms \<Rightarrow> (case map_of ms ''callbackUrl'' of None \<Rightarrow> JStr href | Some v \<Rightarrow> v))"

text \<open>
  \<^verbatim>\<open>
  const csrfTokenResponse = await fetch(`${basePath}/auth/csrf`)
  const { csrfToken } = await csrfTokenResponse.json()
  \<close>
\<close>

definition fetch_csrfToken ::
    "(fetch_request \<Rightarrow> error + json) \<Rightarrow> string option \<Rightarrow> error + json option" where
  "fetch_csrfToken net base =
     (case net (fetch_get (basePath base @ ''/auth/csrf'')) of
        Inl e \<Rightarrow> Inl e
      | Inr j \<Rightarrow> get_property j ''csrfToken'')"

text \<open>
  \<^verbatim>\<open>
  const res = await fetch(_signInUrl, {
    method: "post",
    headers: { "Content-Type": "application/x-www-form-urlencoded", "X-Auth-Return-Redirect": "1" },
    body: new URLSearchParams({ ...options, csrfToken, callbackUrl }),
  })
  const data = await res.clone().json()
  \<close>
  The object literal keeps the members of \<open>options\<close> and then sets \<open>csrfToken\<close> and
  \<open>callbackUrl\<close>, overwriting members of these names.
\<close>

definition signIn_body ::
    "(string \<times> json) list option \<Rightarrow> json option \<Rightarrow> json \<Rightarrow> (string \<times> string) list" where
  "signIn_body options csrfToken callbackUrl =
     URLSearchParams_of_record
       (AList.update ''callbackUrl'' (Some callbackUrl)
          (AList.update ''csrfToken'' csrfToken
             (case options of None \<Rightarrow> [] | Some ms \<Rightarrow> map (\<lambda>(k, v). (k, Some v)) ms)))"

definition signIn ::
    "(fetch_request \<Rightarrow> error + json) \<Rightarrow> string option \<Rightarrow> string \<Rightarrow> string option \<Rightarrow>
     (string \<times> json) list option \<Rightarrow> (string \<times> string) list option \<Rightarrow>
     (error + json) \<times> fetch_request list" where
  "signIn net base href providerId options authorizationParams =
     (let callbackUrl = the_callbackUrl href options;
          url = signInUrl_with_params base providerId authorizationParams;
          csrf = fetch_get (basePath base @ ''/auth/csrf'')
      in case fetch_csrfToken net base of
           Inl e \<Rightarrow> (Inl e, [csrf])
         | Inr csrfToken \<Rightarrow>
             (let post = form_post url (signIn_body options csrfToken callbackUrl)
              in (net post, [csrf, post])))"

text \<open>
  \<^verbatim>\<open>
  export async function signOut(options) {
    const { callbackUrl = window.location.href } = options ?? {}
    const basePath = base ?? ""
    const csrfTokenResponse = await fetch(`${basePath}/auth/csrf`)
    const { csrfToken } = await csrfTokenResponse.json()
    const res = await fetch(`${basePath}/auth/signout`, {
      method: "post",
      headers: { "Content-Type": "application/x-www-form-urlencoded", "X-Auth-Return-Redirect": "1" },
      body: new URLSearchParams({ csrfToken, callbackUrl }),
    })
    const data = await res.json()
    ...
  }
  \<close>
\<close>

definition signOut_body :: "json option \<Rightarrow> json \<Rightarrow> (string \<times> string) list" where
  "signOut_body csrfToken callbackUrl =
     URLSearchParams_of_record [(''csrfToken'', csrfToken), (''callbackUrl'', Some callbackUrl)]"

definition signOut ::
    "(fetch_request \<Rightarrow> error + json) \<Rightarrow> string option \<Rightarrow> string \<Rightarrow>
     (string \<times> json) list option \<Rightarrow> (error + json) \<times> fetch_request list" where
  "signOut net base href options =
     (let callbackUrl = the_callbackUrl href options;
          csrf = fetch_get (basePath base @ ''/auth/csrf'')
      in case fetch_csrfToken net base of
           Inl e \<Rightarrow> (Inl e, [csrf])
         | Inr csrfToken \<Rightarrow>
             (let post = form_post (basePath base @ ''/auth/signout'')
                           (signOut_body csrfToken callbackUrl)
              in (net post, [csrf, post])))"

section \<open>\<open>generate-providers.js\<close>\<close>

text \<open>
  \<^verbatim>\<open>
  const nonOAuthFile = ["oauth-types", "oauth", "index", "email", "credentials"]
  const providers = files.map((file) => {
    const strippedProviderName = file.substring(0, file.indexOf("."))
    return `"${strippedProviderName}"`
  }).filter((provider) => !nonOAuthFile.includes(provider.replace(/"/g, '')))
  const result = `
  // THIS FILE IS AUTOGENERATED. DO NOT EDIT.
  export type OAuthProviderType = 
    | ${providers.join("\n  | ")}`
  \<close>
  \<open>files\<close> is the listing of the directory \<open>src/providers\<close>.
\<close>

definition nonOAuthFile :: "string list" where
  "nonOAuthFile = [''oauth-types'', ''oauth'', ''index'', ''email'', ''credentials'']"

definition strippedProviderName :: "string \<Rightarrow> string" where
  "strippedProviderName file = substring file 0 (indexOf file CHR ''.'')"

definition quoted :: "string \<Rightarrow> string" where
  "quoted s = CHR 0x22 # s @ [CHR 0x22]"

definition remove_quotes :: "string \<Rightarrow> string" where
  "remove_quotes s = filter (\<lambda>c. c \<noteq> CHR 0x22) s"

definition providers :: "string list \<Rightarrow> string list" where
  "providers files =
     filter (\<lambda>provider. remove_quotes provider \<notin> set nonOAuthFile)
       (map (\<lambda>file. quoted (strippedProviderName file)) files)"

definition result :: "string list \<Rightarrow> string" where
  "result files =
     [CHR 0x0A] @ ''// THIS FILE IS AUTOGENERATED. DO NOT EDIT.'' @ [CHR 0x0A] @
     ''export type OAuthProviderType = '' @ [CHR 0x0A] @
     ''  | '' @ join ([CHR 0x0A] @ ''  | '') (providers files)"

text \<open>The claim's wording: the base name of a file is the text before its first dot.\<close>

definition text_before_first_dot :: "string \<Rightarrow> string" where
  "text_before_first_dot file = takeWhile (\<lambda>c. c \<noteq> CHR ''.'') file"

section \<open>The MikroORM adapter (\<open>MikroOrmAdapter\<close>)\<close>

text \<open>
  The adapter talks to the database through an entity manager.  The database is modelled
  as the rows of the two tables the operations below touch; every operation takes the
  store and returns the new one together with its result.  \<open>em.findOne\<close> yields the
  first row that satisfies the query or \<open>null\<close>.
\<close>

record session =
  session_id :: string
  userId :: string
  expires :: int
  sessionToken :: string

record verification_token =
  vt_identifier :: string
  vt_token :: string
  vt_expires :: int

record store =
  sessions :: "session list"
  verificationTokens :: "verification_token list"

text \<open>The argument of \<open>updateSession\<close>: the session token and the fields to overwrite.\<close>

record session_update =
  upd_sessionToken :: string
  upd_userId :: "string option"
  upd_expires :: "int option"

text \<open>The argument of \<open>useVerificationToken\<close>.\<close>

record vt_params =
  p_identifier :: string
  p_token :: string

definition findOne :: "'a list \<Rightarrow> ('a \<Rightarrow> bool) \<Rightarrow> 'a option" where
  "findOne rows q = List.find q rows"

text \<open>\<open>assign\<close> copies the fields present in the data onto the entity.\<close>

definition assign :: "session \<Rightarrow> session_update \<Rightarrow> session" where
  "assign s d =
     s\<lparr> sessionToken := upd_sessionToken d,
        userId := (case upd_userId d of None \<Rightarrow> userId s | Some u \<Rightarrow> u),
        expires := (case upd_expires d of None \<Rightarrow> expires s | Some e \<Rightarrow> e) \<rparr>"

text \<open>
  \<open>wrap(session).assign(data)\<close>: \<open>wrap\<close> hands \<open>null\<close> back unchanged, so the method
  call on it raises a \<open>TypeError\<close>; on an entity the fields are assigned.
\<close>

definition wrap_assign :: "session option \<Rightarrow> session_update \<Rightarrow> error + session option" where
  "wrap_assign e d = (case e of None \<Rightarrow> Inl TypeError | Some s \<Rightarrow> Inr (Some (assign s d)))"

text \<open>
  \<open>em.persistAndFlush\<close> of a managed entity writes its row back.  The \<open>userId\<close> of the
  session entity is a property that is not persisted (the row refers to its user through
  the relation \<open>user\<close>), so the stored row keeps the user it had; the entity that the
  operation returns carries the assigned value.
\<close>

definition persistAndFlush :: "session \<Rightarrow> session list \<Rightarrow> session list" where
  "persistAndFlush s rows =
     map (\<lambda>r. if session_id r = session_id s then s\<lparr>userId := userId r\<rparr> else r) rows"

text \<open>\<open>em.removeAndFlush\<close> deletes the row of the entity that was found.\<close>

definition removeAndFlush :: "'a \<Rightarrow> 'a list \<Rightarrow> 'a list" where
  "removeAndFlush e rows = remove1 e rows"

text \<open>
  \<^verbatim>\<open>
  async updateSession(data) {
    const em = await getEM()
    const session = await em.findOne(SessionModel, { sessionToken: data.sessionToken })
    wrap(session).assign(data)
    if (!session) throw new Error("Session not found")
    await em.persistAndFlush(session)
    return wrap(session).toObject()
  }
  \<close>
  The statements are kept in the order of the source: the assignment comes before the
  test for a missing session.
\<close>

definition updateSession :: "session_update \<Rightarrow> store \<Rightarrow> (error + session) \<times> store" where
  "updateSession d st =
     (let found = findOne (sessions st) (\<lambda>s. sessionToken s = upd_sessionToken d) in
      case wrap_assign found d of
        Inl e \<Rightarrow> (Inl e, st)
      | Inr assigned \<Rightarrow>
          (case assigned of
             None \<Rightarrow> (Inl (Error ''Session not found''), st)
           | Some s \<Rightarrow> (Inr s, st\<lparr>sessions := persistAndFlush s (sessions st)\<rparr>)))"

text \<open>
  \<^verbatim>\<open>
  async useVerificationToken(params) {
    const em = await getEM()
    const verificationToken = await em.getRepository(VerificationTokenModel).findOne(params)
    if (!verificationToken) return null
    await em.removeAndFlush(verificationToken)
    return wrap(verificationToken).toObject()
  }
  \<close>
\<close>

definition matches :: "vt_params \<Rightarrow> verification_token \<Rightarrow> bool" where
  "matches p v \<longleftrightarrow> vt_identifier v = p_identifier p \<and> vt_token v = p_token p"

definition useVerificationToken ::
    "vt_params \<Rightarrow> store \<Rightarrow> verification_token option \<times> store" where
  "useVerificationToken p st =
     (case findOne (verificationTokens st) (matches p) of
        None \<Rightarrow> (None, st)
      | Some v \<Rightarrow>
          (Some v, st\<lparr>verificationTokens := removeAndFlush v (verificationTokens st)\<rparr>))"

text \<open>
  The table of verification tokens carries a unique constraint on the pair of identifier
  and token: no two rows agree on both.
\<close>

definition unique_tokens :: "store \<Rightarrow> bool" where
  "unique_tokens st \<longleftrightarrow>
     distinct (map (\<lambda>v. (vt_identifier v, vt_token v)) (verificationTokens st))"

section \<open>Concrete instances of the parameters\<close>

text \<open>
  The examples need a library, a session store, a network and a database to run on.
  \<open>codebook key h c t\<close> is a library that knows one message: it seals the claims \<open>c\<close>
  under the key and the header into the token \<open>t\<close> and opens \<open>t\<close> again, and refuses
  everything else.  Its key derivation joins the secret and the info string.
\<close>

definition codebook :: "string \<Rightarrow> jwe_header \<Rightarrow> claims \<Rightarrow> string \<Rightarrow> crypto" where
  "codebook key h c t =
     \<lparr>hkdf = (\<lambda>digest ikm salt info keylen.
         if ikm = [] then Inl (LibraryError ''ikm'') else Inr (ikm @ ''/'' @ info)),
      compactEncrypt = (\<lambda>k h' c'.
         if k = key \<and> h' = h \<and> c' = c then Inr t else Inl (LibraryError ''encrypt'')),
      compactDecrypt = (\<lambda>k t'.
         if k = key \<and> t' = t then Inr (h, c) else Inl (LibraryError ''decrypt''))\<rparr>"

definition demo_key :: string where
  "demo_key = ''secret/Auth.js Generated Encryption Key''"

definition demo_header :: jwe_header where
  "demo_header = \<lparr>alg = ''dir'', enc = ''A256GCM''\<rparr>"

definition demo_crypto :: "claims \<Rightarrow> crypto" where
  "demo_crypto c = codebook demo_key demo_header c ''eyJ.tok''"

text \<open>
  A session store whose value is the cookie of exactly the given name.  It stands for
  the \<open>SessionStore\<close> of \<open>lib/cookie.js\<close> on requests whose token is not split over the
  chunk cookies \<open>name.0\<close>, \<open>name.1\<close>, ...; the examples use it on a request without
  cookies, where every session store is empty.
\<close>

definition named_cookie :: "string \<Rightarrow> bool \<Rightarrow> (string \<times> string) list request \<Rightarrow> string" where
  "named_cookie name secure req = (case map_of (cookies req) name of None \<Rightarrow> [] | Some v \<Rightarrow> v)"

text \<open>A network that answers every \<open>GET\<close> with a CSRF token and every other request
  with a URL.\<close>

definition demo_net :: "fetch_request \<Rightarrow> error + json" where
  "demo_net r =
     (if rq_method r = ''GET'' then Inr (JObj [(''csrfToken'', JStr ''abc'')])
      else Inr (JObj [(''url'', JStr ''http://here/'')]))"

definition demo_store :: store where
  "demo_store =
     \<lparr>sessions = [],
      verificationTokens =
        [\<lparr>vt_identifier = ''a@b.c'', vt_token = ''t1'', vt_expires = 9\<rparr>,
         \<lparr>vt_identifier = ''a@b.c'', vt_token = ''t2'', vt_expires = 9\<rparr>]\<rparr>"

section \<open>What the claims say, as predicates\<close>

text \<open>
  A trace of requests respects the CSRF protocol when every request in it other than
  the fetch of \<open>{basePath}/auth/csrf\<close> is a form post that comes right after that fetch
  and whose body carries, as \<open>csrfToken\<close>, the token of the fetched response.
\<close>

definition carries_token :: "json option \<Rightarrow> fetch_request \<Rightarrow> bool" where
  "carries_token tok r \<longleftrightarrow>
     (case rq_body r of
        None \<Rightarrow> False
      | Some b \<Rightarrow> map_of b ''csrfToken'' = Some (ToString_opt tok))"

definition csrf_checked ::
    "(fetch_request \<Rightarrow> error + json) \<Rightarrow> string option \<Rightarrow> fetch_request list \<Rightarrow> bool" where
  "csrf_checked net base trace \<longleftrightarrow>
     (\<forall>r \<in> set trace. r \<noteq> fetch_get (basePath base @ ''/auth/csrf'') \<longrightarrow>
        rq_method r = ''post'' \<and>
        map_of (rq_headers r) ''Content-Type'' = Some ''application/x-www-form-urlencoded'' \<and>
        trace = [fetch_get (basePath base @ ''/auth/csrf''), r] \<and>
        (case net (fetch_get (basePath base @ ''/auth/csrf'')) of
           Inl e \<Rightarrow> False
         | Inr j \<Rightarrow>
             (case get_property j ''csrfToken'' of
                Inl e \<Rightarrow> False
              | Inr tok \<Rightarrow> carries_token tok r)))"

section \<open>Properties of the built-ins\<close>

text \<open>The only error of \<open>decodeURIComponent\<close> is the \<open>URIError\<close>.\<close>

lemma decode_units_error: "decode_units us = Inl e \<Longrightarrow> e = URIError"
proof (induction us rule: decode_units.induct)
  case 1
  then show ?case by simp
next
  case (2 us)
  then show ?case by simp
next
  case (3 c us)
  then show ?case by (cases "decode_units us") auto
next
  case (4 b us)
  show ?case
  proof (cases "leading_ones b = 0")
    case True
    with 4 show ?thesis by (cases "decode_units us") auto
  next
    case False
    with 4 show ?thesis
      by (cases "decode_units (drop (leading_ones b - 1) us)")
         (auto simp: Let_def split: if_splits option.splits)
  qed
qed

lemma decodeURIComponent_error: "decodeURIComponent s = Inl e \<Longrightarrow> e = URIError"
  by (simp add: decodeURIComponent_def decode_units_error)

lemma split_on_nonempty: "split_on d s \<noteq> []"
  by (induction s) (auto split: list.splits)

lemma split_on_no_separator: "d \<notin> set s \<Longrightarrow> split_on d s = [s]"
  by (induction s) auto

lemma split_on_append:
  "d \<notin> set w \<Longrightarrow> split_on d (w @ d # s) = w # split_on d s"
  by (induction w) (auto simp: split_on_nonempty split: list.splits)

lemma indexOf_absent: "c \<notin> set s \<Longrightarrow> indexOf s c = - 1"
  by (induction s) (auto simp: Let_def)

lemma indexOf_present: "c \<in> set s \<Longrightarrow> indexOf s c = int (length (takeWhile (\<lambda>x. x \<noteq> c) s))"
proof (induction s)
  case Nil
  then show ?case by simp
next
  case (Cons x xs)
  show ?case
  proof (cases "x = c")
    case True
    then show ?thesis by simp
  next
    case False
    with Cons.prems have "c \<in> set xs" by simp
    with Cons.IH False show ?thesis by (simp add: Let_def)
  qed
qed

lemma substring_prefix: "n \<le> length s \<Longrightarrow> substring s 0 (int n) = take n s"
  by (simp add: substring_def Let_def min_def max_def)

lemma substring_negative: "substring s 0 (- 1) = []"
  by (simp add: substring_def Let_def)

section \<open>Properties of \<open>encode\<close> and \<open>decode\<close>\<close>

text \<open>
  While the clock is below \<open>2^31\<close> seconds, \<open>now\<close> is the time in whole seconds; from
  there to \<open>2^32\<close> seconds it is that time less \<open>2^32\<close>.  The claims that \<open>encode\<close> seals are the payload with \<open>iat\<close>, \<open>exp\<close> and \<open>jti\<close> set, in
  this order, under the header \<open>dir\<close> / \<open>A256GCM\<close>.
\<close>

lemma now_in_range:
  assumes "0 \<le> Date_now" "Date_now div 1000 < 2147483648"
  shows "now Date_now = Date_now div 1000"
proof -
  have "0 \<le> Date_now div 1000" using assms(1) by simp
  then show ?thesis using assms
    by (simp add: now_def ToInt32_def truncate_div_def)
qed

lemma now_wraps:
  assumes "2147483648 \<le> Date_now div 1000" "Date_now div 1000 < 4294967296"
  shows "now Date_now = Date_now div 1000 - 4294967296"
proof -
  let ?x = "Date_now div 1000"
  have nonneg: "0 \<le> Date_now"
    using assms(1) by (simp add: pos_imp_zdiv_nonneg_iff)
  have "(?x + 2147483648) mod 4294967296 = (?x + 2147483648 - 4294967296) mod 4294967296"
    by (simp only: minus_mod_self2)
  also have "\<dots> = ?x + 2147483648 - 4294967296"
    using assms by (intro mod_pos_pos_trivial) simp_all
  finally show ?thesis
    using nonneg by (simp add: now_def ToInt32_def truncate_div_def)
qed

lemma payload_issue:
  "the_payload (issue Date_now randomUUID token maxAge) =
     AList.update ''jti'' (JStr randomUUID)
       (AList.update ''exp'' (JNum (now Date_now + maxAge))
          (AList.update ''iat'' (JNum (epoch Date_now)) token))"
  by (simp add: issue_def setJti_def setExpirationTime_def setIssuedAt_def
      setProtectedHeader_def new_EncryptJWT_def)

lemma header_issue:
  "the_protectedHeader (issue Date_now randomUUID token maxAge) =
     Some \<lparr>alg = ''dir'', enc = ''A256GCM''\<rparr>"
  by (simp add: issue_def setJti_def setExpirationTime_def setIssuedAt_def
      setProtectedHeader_def new_EncryptJWT_def)

lemma map_of_issue:
  "map_of (the_payload (issue Date_now randomUUID token maxAge)) =
     (map_of token)(''iat'' \<mapsto> JNum (epoch Date_now),
                    ''exp'' \<mapsto> JNum (now Date_now + maxAge),
                    ''jti'' \<mapsto> JStr randomUUID)"
  by (simp add: payload_issue update_conv')

lemma issue_2038:
  "the_payload (issue 2147483648000 u [] DEFAULT_MAX_AGE) =
     [(''iat'', JNum 2147483648), (''exp'', JNum (- 2144891648)), (''jti'', JStr u)]"
  by (simp add: payload_issue now_def ToInt32_def truncate_div_def epoch_def DEFAULT_MAX_AGE_def)

lemma issued_times_in_range:
  assumes "0 \<le> Date_now" "Date_now div 1000 < 2147483648"
  shows "map_of (the_payload (issue Date_now u p a)) ''exp'' = Some (JNum (Date_now div 1000 + a))"
    and "map_of (the_payload (issue Date_now u p a)) ''iat'' = Some (JNum (Date_now div 1000))"
  using now_in_range [OF assms] by (simp_all add: map_of_issue epoch_def)

lemma encode_Inr_iff:
  "encode L t0 uuid params = Inr tok \<longleftrightarrow>
     (\<exists>k. hkdf L ''sha256'' (enc_secret params) '''' ''Auth.js Generated Encryption Key'' 32 = Inr k \<and>
          compactEncrypt L k \<lparr>alg = ''dir'', enc = ''A256GCM''\<rparr>
            (the_payload (issue t0 uuid (case enc_token params of None \<Rightarrow> [] | Some t \<Rightarrow> t)
               (case enc_maxAge params of None \<Rightarrow> DEFAULT_MAX_AGE | Some m \<Rightarrow> m))) = Inr tok)"
  by (auto simp: encode_def getDerivedEncryptionKey_def encrypt_def header_issue Let_def
      split: sum.splits)

lemma validate_issued:
  assumes nbf: "check_nbf tol (epoch t1) p = None"
      and fresh: "epoch t1 - tol < now t0 + a"
  shows "validate_claims tol t1 (the_payload (issue t0 uuid p a)) =
           Inr (the_payload (issue t0 uuid p a))"
proof -
  let ?c = "the_payload (issue t0 uuid p a)"
  have iat: "check_iat ?c = None"
    by (simp add: check_iat_def map_of_issue)
  have "map_of ?c ''nbf'' = map_of p ''nbf''"
    by (simp add: map_of_issue)
  then have n: "check_nbf tol (epoch t1) ?c = None"
    using nbf by (simp add: check_nbf_def)
  have e: "check_exp tol (epoch t1) ?c = None"
    using fresh by (simp add: check_exp_def map_of_issue)
  show ?thesis
    by (simp add: validate_claims_def iat n e)
qed

lemma codebook_inverts:
  "compactEncrypt (codebook key h c t) k h' c' = Inr t' \<Longrightarrow>
   compactDecrypt (codebook key h c t) k t' = Inr (h', c')"
  by (simp add: codebook_def split: if_splits)

text \<open>
  C1, as amended.  Let \<open>encode\<close> return a token for the payload \<open>p\<close>, the secret \<open>s\<close>
  and a maximum age, at the time \<open>t0\<close>; let the library open what it has sealed, and
  let the token be non-empty, as every compact JWE is.  If \<open>p\<close> carries no \<open>nbf\<close> claim,
  or a numeric one that lies at most 15 seconds after the time \<open>t1\<close> of decoding, and
  \<open>t1\<close> is less than 15 seconds past the expiration time of the token, then \<open>decode\<close>
  with the same secret succeeds.  The payload it returns agrees with \<open>p\<close> on every field other than
  \<open>iat\<close>, \<open>exp\<close> and \<open>jti\<close>; these three hold the time of issue, the expiration time
  and the fresh identifier, whatever \<open>p\<close> had there.

  The counterexample after it shows what the claim as written misses: a payload with an
  \<open>exp\<close> field comes back with another \<open>exp\<close>; the same token is refused as expired
  76 seconds later; and a payload whose \<open>nbf\<close> lies in the future is refused at once.
\<close>

theorem decode_encode_round_trip:
  assumes enc: "encode L t0 uuid \<lparr>enc_token = Some p, enc_secret = s, enc_maxAge = m\<rparr> = Inr tok"
      and inv: "\<forall>k h c. compactEncrypt L k h c = Inr tok \<longrightarrow> compactDecrypt L k tok = Inr (h, c)"
      and ne: "tok \<noteq> []"
      and nbf: "check_nbf 15 (epoch t1) p = None"
      and fresh: "epoch t1 - 15 < now t0 + (case m of None \<Rightarrow> DEFAULT_MAX_AGE | Some a \<Rightarrow> a)"
  shows "\<exists>q. decode L t1 \<lparr>dec_token = Some tok, dec_secret = s\<rparr> = Inr (Some q) \<and>
             (\<forall>f. f \<notin> {''iat'', ''exp'', ''jti''} \<longrightarrow> map_of q f = map_of p f) \<and>
             map_of q ''iat'' = Some (JNum (epoch t0)) \<and>
             map_of q ''exp'' =
               Some (JNum (now t0 + (case m of None \<Rightarrow> DEFAULT_MAX_AGE | Some a \<Rightarrow> a))) \<and>
             map_of q ''jti'' = Some (JStr uuid)"
proof -
  let ?a = "case m of None \<Rightarrow> DEFAULT_MAX_AGE | Some a \<Rightarrow> a"
  let ?c = "the_payload (issue t0 uuid p ?a)"
  from enc obtain k where
    key: "hkdf L ''sha256'' s '''' ''Auth.js Generated Encryption Key'' 32 = Inr k" and
    sealed: "compactEncrypt L k \<lparr>alg = ''dir'', enc = ''A256GCM''\<rparr> ?c = Inr tok"
    by (auto simp: encode_Inr_iff)
  from inv sealed have
    opened: "compactDecrypt L k tok = Inr (\<lparr>alg = ''dir'', enc = ''A256GCM''\<rparr>, ?c)"
    by blast
  have "jwtDecrypt L t1 tok k 15 = Inr ?c"
    by (simp add: jwtDecrypt_def opened validate_issued [OF nbf fresh])
  then have "decode L t1 \<lparr>dec_token = Some tok, dec_secret = s\<rparr> = Inr (Some ?c)"
    using ne key by (simp add: decode_def getDerivedEncryptionKey_def)
  moreover have "\<forall>f. f \<notin> {''iat'', ''exp'', ''jti''} \<longrightarrow> map_of ?c f = map_of p f"
    by (simp add: map_of_issue)
  moreover have "map_of ?c ''iat'' = Some (JNum (epoch t0))"
    "map_of ?c ''exp'' = Some (JNum (now t0 + ?a))"
    "map_of ?c ''jti'' = Some (JStr uuid)"
    by (simp_all add: map_of_issue)
  ultimately show ?thesis by blast
qed

theorem decode_encode_round_trip_witness:
  "encode (demo_crypto [(''name'', JStr ''Ada''), (''iat'', JNum 1000), (''exp'', JNum 1060), (''jti'', JStr ''u1'')])
       1000000 ''u1'' \<lparr>enc_token = Some [(''name'', JStr ''Ada'')], enc_secret = ''secret'', enc_maxAge = Some 60\<rparr>
     = Inr ''eyJ.tok'' \<and>
   (\<exists>q. decode (demo_crypto [(''name'', JStr ''Ada''), (''iat'', JNum 1000), (''exp'', JNum 1060), (''jti'', JStr ''u1'')])
          1030000 \<lparr>dec_token = Some ''eyJ.tok'', dec_secret = ''secret''\<rparr> = Inr (Some q) \<and>
        map_of q ''name'' = Some (JStr ''Ada'') \<and> map_of q ''exp'' = Some (JNum 1060))"
proof -
  let ?L = "demo_crypto [(''name'', JStr ''Ada''), (''iat'', JNum 1000), (''exp'', JNum 1060), (''jti'', JStr ''u1'')]"
  have n: "now 1000000 = 1000"
    by (simp add: now_def ToInt32_def truncate_div_def)
  have enc: "encode ?L 1000000 ''u1''
      \<lparr>enc_token = Some [(''name'', JStr ''Ada'')], enc_secret = ''secret'', enc_maxAge = Some 60\<rparr>
      = Inr ''eyJ.tok''"
    by (simp add: encode_Inr_iff payload_issue n epoch_def demo_crypto_def codebook_def
        demo_key_def demo_header_def)
  have inv: "\<forall>k h c. compactEncrypt ?L k h c = Inr ''eyJ.tok'' \<longrightarrow>
      compactDecrypt ?L k ''eyJ.tok'' = Inr (h, c)"
    by (simp add: demo_crypto_def codebook_inverts)
  have nbf: "check_nbf 15 (epoch 1030000) [(''name'', JStr ''Ada'')] = None"
    by (simp add: check_nbf_def)
  have fresh: "epoch 1030000 - 15 < now 1000000 + (case Some 60 of None \<Rightarrow> DEFAULT_MAX_AGE | Some a \<Rightarrow> a)"
    by (simp add: n epoch_def)
  from decode_encode_round_trip [OF enc inv _ nbf fresh]
  obtain q where "decode ?L 1030000 \<lparr>dec_token = Some ''eyJ.tok'', dec_secret = ''secret''\<rparr> = Inr (Some q)"
    and "\<forall>f. f \<notin> {''iat'', ''exp'', ''jti''} \<longrightarrow> map_of q f = map_of [(''name'', JStr ''Ada'')] f"
    and "map_of q ''exp'' = Some (JNum (now 1000000 + 60))"
    by auto
  then have "decode ?L 1030000 \<lparr>dec_token = Some ''eyJ.tok'', dec_secret = ''secret''\<rparr> = Inr (Some q) \<and>
        map_of q ''name'' = Some (JStr ''Ada'') \<and> map_of q ''exp'' = Some (JNum 1060)"
    by (simp add: n)
  with enc show ?thesis by blast
qed

theorem round_trip_counterexample:
  "encode (demo_crypto [(''name'', JStr ''Ada''), (''exp'', JNum 1060), (''iat'', JNum 1000), (''jti'', JStr ''u1'')])
       1000000 ''u1''
       \<lparr>enc_token = Some [(''name'', JStr ''Ada''), (''exp'', JNum 1)],
        enc_secret = ''secret'', enc_maxAge = Some 60\<rparr> = Inr ''eyJ.tok'' \<and>
   decode (demo_crypto [(''name'', JStr ''Ada''), (''exp'', JNum 1060), (''iat'', JNum 1000), (''jti'', JStr ''u1'')])
       1000000 \<lparr>dec_token = Some ''eyJ.tok'', dec_secret = ''secret''\<rparr> =
     Inr (Some [(''name'', JStr ''Ada''), (''exp'', JNum 1060), (''iat'', JNum 1000), (''jti'', JStr ''u1'')]) \<and>
   decode (demo_crypto [(''name'', JStr ''Ada''), (''exp'', JNum 1060), (''iat'', JNum 1000), (''jti'', JStr ''u1'')])
       1076000 \<lparr>dec_token = Some ''eyJ.tok'', dec_secret = ''secret''\<rparr> = Inl JWTExpired \<and>
   encode (demo_crypto [(''nbf'', JNum 5000), (''iat'', JNum 1000), (''exp'', JNum 1060), (''jti'', JStr ''u1'')])
       1000000 ''u1''
       \<lparr>enc_token = Some [(''nbf'', JNum 5000)], enc_secret = ''secret'', enc_maxAge = Some 60\<rparr>
     = Inr ''eyJ.tok'' \<and>
   decode (demo_crypto [(''nbf'', JNum 5000), (''iat'', JNum 1000), (''exp'', JNum 1060), (''jti'', JStr ''u1'')])
       1000000 \<lparr>dec_token = Some ''eyJ.tok'', dec_secret = ''secret''\<rparr> =
     Inl (JWTClaimValidationFailed ''nbf'')"
proof -
  have n: "now 1000000 = 1000"
    by (simp add: now_def ToInt32_def truncate_div_def)
  show ?thesis
    by (simp add: encode_Inr_iff payload_issue n epoch_def demo_crypto_def codebook_def
        demo_key_def demo_header_def decode_def getDerivedEncryptionKey_def jwtDecrypt_def
        validate_claims_def check_iat_def check_nbf_def check_exp_def)
qed



text \<open>
  C9, evaluated on the code.  On 19 January 2038 at 03:14:08 UTC the clock reads
  \<open>2147483648000\<close> milliseconds.  A token issued then without \<open>maxAge\<close> has the
  issued-at time \<open>2147483648\<close>, but its expiration time is \<open>-2144891648\<close> and not
  \<open>2147483648 + 2592000\<close>: the \<open>| 0\<close> in \<open>now\<close> has wrapped the seconds around.  For
  the times before, \<open>issued_times_in_range\<close> above gives the claimed values.
\<close>

theorem encode_2038:
  "encode L 2147483648000 u \<lparr>enc_token = None, enc_secret = s, enc_maxAge = None\<rparr> =
     (case hkdf L ''sha256'' s '''' ''Auth.js Generated Encryption Key'' 32 of
        Inl e \<Rightarrow> Inl e
      | Inr k \<Rightarrow>
          compactEncrypt L k \<lparr>alg = ''dir'', enc = ''A256GCM''\<rparr>
            [(''iat'', JNum 2147483648), (''exp'', JNum (- 2144891648)), (''jti'', JStr u)])"
  by (simp add: encode_def getDerivedEncryptionKey_def encrypt_def header_issue issue_2038
      split: sum.splits)

section \<open>Properties of \<open>getToken\<close>\<close>

text \<open>
  \<open>decode\<close> returns \<open>null\<close> without a token.  With the default cookie name, a cookie
  token wins over the header; without one, the second word of a \<open>Bearer\<close> header is
  decoded and used; without either the result is \<open>null\<close>, and so it is when decoding
  the token raises.  \<open>getToken\<close> itself raises for a missing request, for a missing
  secret, and with a \<open>URIError\<close> from the \<open>Bearer\<close> header.
\<close>

lemma decode_without_token:
  "decode L t \<lparr>dec_token = None, dec_secret = s\<rparr> = Inr None"
  "decode L t \<lparr>dec_token = Some [], dec_secret = s\<rparr> = Inr None"
  by (simp_all add: decode_def)

lemma return_token_decode_error:
  "d \<lparr>dec_token = Some token, dec_secret = secret\<rparr> = Inl e \<Longrightarrow>
   return_token d False secret token = Null"
  by (simp add: return_token_def)

lemma cookie_names:
  "gt_cookieName params = None \<Longrightarrow>
   the_cookieName env params =
     (if the_secureCookie env params then ''__Secure-next-auth.session-token''
      else ''next-auth.session-token'')"
  by (simp add: the_cookieName_def)

lemma getToken_cookie_first:
  assumes "gt_req params = Some req" "truthy (the_secret env params)"
      and "ss (the_cookieName env params) (the_secureCookie env params) req = token"
      and "token \<noteq> []" "gt_raw params = Some True"
  shows "getToken ss L env t params = Inr (Raw token)"
  using assms by (simp add: getToken_def Let_def return_token_def)

lemma getToken_bearer_token:
  assumes "gt_req params = Some req" "truthy (the_secret env params)"
      and "ss (the_cookieName env params) (the_secureCookie env params) req = []"
      and "authorization req = Some (''Bearer '' @ u)" "CHR '' '' \<notin> set u"
      and "decodeURIComponent u = Inr token" "token \<noteq> []" "gt_raw params = Some True"
  shows "getToken ss L env t params = Inr (Raw token)"
proof -
  have "split_on CHR '' '' (''Bearer'' @ CHR '' '' # u) = ''Bearer'' # split_on CHR '' '' u"
    by (rule split_on_append) simp
  then have s: "split_on CHR '' '' (''Bearer '' @ u) = [''Bearer'', u]"
    using assms(5) by (simp add: split_on_no_separator)
  show ?thesis
    using assms s
    by (simp add: getToken_def Let_def return_token_def is_Bearer_def bearer_token_def
        urlEncodedToken_def)
qed

lemma getToken_no_token:
  assumes "gt_req params = Some req" "truthy (the_secret env params)"
      and "ss (the_cookieName env params) (the_secureCookie env params) req = []"
      and "\<not> is_Bearer (authorization req)"
  shows "getToken ss L env t params = Inr Null"
  using assms by (simp add: getToken_def Let_def return_token_def)

lemma getToken_decode_error_gives_null:
  assumes "gt_req params = Some req" "truthy (the_secret env params)"
      and "ss (the_cookieName env params) (the_secureCookie env params) req = token"
      and "token \<noteq> []" "gt_raw params \<noteq> Some True" "gt_decode params = Some d"
      and "d \<lparr>dec_token = Some token, dec_secret = the (the_secret env params)\<rparr> = Inl e"
  shows "getToken ss L env t params = Inr Null"
  using assms by (simp add: getToken_def Let_def return_token_def)

lemma getToken_failure_cases:
  assumes "getToken ss L env t params = Inl e"
  shows "(gt_req params = None \<and> e = Error ''Must pass `req` to JWT getToken()'') \<or>
         (\<not> truthy (the_secret env params) \<and>
            e = MissingSecret ''Must pass `secret` if not set to JWT getToken()'') \<or>
         (is_Bearer (authorization (the (gt_req params))) \<and> e = URIError)"
proof (cases "gt_req params")
  case None
  with assms show ?thesis by (simp add: getToken_def Let_def)
next
  case (Some req)
  show ?thesis
  proof (cases "truthy (the_secret env params)")
    case False
    with assms Some show ?thesis by (simp add: getToken_def Let_def)
  next
    case True
    with assms Some obtain h where
      b: "is_Bearer (authorization req)" and h: "authorization req = Some h" and
      d: "bearer_token (Some h) = Inl e"
      by (auto simp: getToken_def Let_def is_Bearer_def split: if_splits sum.splits option.splits)
    from d have "e = URIError"
      by (simp add: bearer_token_def decodeURIComponent_error)
    with b Some show ?thesis by simp
  qed
qed

text \<open>
  C3, evaluated on the code.  The request has no cookie, and its \<open>Authorization\<close>
  header is the single word \<open>Bearer\<close>: neither holds a token.  With \<open>raw\<close> set,
  \<open>getToken\<close> does not return \<open>null\<close>; it returns the string \<open>undefined\<close>, which is
  what \<open>decodeURIComponent\<close> makes of the missing second word.
\<close>

theorem getToken_bare_Bearer_returns_undefined:
  "getToken named_cookie L env t
     \<lparr>gt_req = Some \<lparr>cookies = [], authorization = Some ''Bearer''\<rparr>,
      gt_secureCookie = None, gt_cookieName = None, gt_raw = Some True,
      gt_decode = None, gt_secret = Some ''s''\<rparr>
   = Inr (Raw ''undefined'')"
  by (simp add: getToken_def named_cookie_def truthy_def the_secret_def is_Bearer_def
      bearer_token_def urlEncodedToken_def decodeURIComponent_def return_token_def)

text \<open>
  C8, evaluated on the code.  The request is there and the secret is given, and still
  \<open>getToken\<close> fails: for the header \<open>Bearer %\<close> the call of \<open>decodeURIComponent\<close>,
  which stands outside the \<open>try\<close>, raises a \<open>URIError\<close>.
\<close>

theorem getToken_malformed_Bearer_raises_URIError:
  "getToken named_cookie L env t
     \<lparr>gt_req = Some \<lparr>cookies = [], authorization = Some ''Bearer %''\<rparr>,
      gt_secureCookie = None, gt_cookieName = None, gt_raw = None,
      gt_decode = None, gt_secret = Some ''s''\<rparr>
   = Inl URIError"
  by (simp add: getToken_def named_cookie_def truthy_def the_secret_def is_Bearer_def
      bearer_token_def urlEncodedToken_def decodeURIComponent_def return_token_def)

section \<open>Properties of the SvelteKit client helpers\<close>

lemma map_of_URLSearchParams_of_record:
  "map_of (URLSearchParams_of_record r) k = map_option ToString_opt (map_of r k)"
  by (induction r) (auto simp: URLSearchParams_of_record_def)

lemma signIn_body_csrfToken:
  "map_of (signIn_body options tok cb) ''csrfToken'' = Some (ToString_opt tok)"
  by (simp add: signIn_body_def map_of_URLSearchParams_of_record update_conv')

lemma signOut_body_csrfToken:
  "map_of (signOut_body tok cb) ''csrfToken'' = Some (ToString_opt tok)"
  by (simp add: signOut_body_def map_of_URLSearchParams_of_record)

lemma fetch_csrfToken_Inr:
  "fetch_csrfToken net base = Inr tok \<Longrightarrow>
     \<exists>j. net (fetch_get (basePath base @ ''/auth/csrf'')) = Inr j \<and>
         get_property j ''csrfToken'' = Inr tok"
  by (auto simp: fetch_csrfToken_def split: sum.splits)

lemma form_post_not_get: "form_post u b \<noteq> fetch_get v"
  by (simp add: form_post_def fetch_get_def)

lemma signIn_trace:
  "snd (signIn net base href providerId options authorizationParams) =
     fetch_get (basePath base @ ''/auth/csrf'') #
     (case fetch_csrfToken net base of
        Inl e \<Rightarrow> []
      | Inr tok \<Rightarrow>
          [form_post (signInUrl_with_params base providerId authorizationParams)
             (signIn_body options tok (the_callbackUrl href options))])"
  by (simp add: signIn_def Let_def split: sum.splits)

lemma signOut_trace:
  "snd (signOut net base href options) =
     fetch_get (basePath base @ ''/auth/csrf'') #
     (case fetch_csrfToken net base of
        Inl e \<Rightarrow> []
      | Inr tok \<Rightarrow>
          [form_post (basePath base @ ''/auth/signout'')
             (signOut_body tok (the_callbackUrl href options))])"
  by (simp add: signOut_def Let_def split: sum.splits)

text \<open>
  C5.  Among the requests that \<open>signIn\<close> and \<open>signOut\<close> issue, every one other than
  the fetch of \<open>{basePath}/auth/csrf\<close> is a post with the content type
  \<open>application/x-www-form-urlencoded\<close>; it is issued right after that fetch, and the
  \<open>csrfToken\<close> of its form body is the one of the fetched response.
\<close>

theorem sign_requests_carry_fetched_csrfToken:
  "csrf_checked net base (snd (signIn net base href providerId options authorizationParams)) \<and>
   csrf_checked net base (snd (signOut net base href options'))"
proof
  show "csrf_checked net base (snd (signIn net base href providerId options authorizationParams))"
  proof (cases "fetch_csrfToken net base")
    case (Inl e)
    then show ?thesis by (simp add: csrf_checked_def signIn_trace)
  next
    case (Inr tok)
    from fetch_csrfToken_Inr [OF Inr] show ?thesis
      by (auto simp: csrf_checked_def carries_token_def signIn_trace Inr form_post_def
          signIn_body_csrfToken)
  qed
  show "csrf_checked net base (snd (signOut net base href options'))"
  proof (cases "fetch_csrfToken net base")
    case (Inl e)
    then show ?thesis by (simp add: csrf_checked_def signOut_trace)
  next
    case (Inr tok)
    from fetch_csrfToken_Inr [OF Inr] show ?thesis
      by (auto simp: csrf_checked_def carries_token_def signOut_trace Inr form_post_def
          signOut_body_csrfToken)
  qed
qed

theorem sign_requests_carry_fetched_csrfToken_witness:
  "(\<exists>r \<in> set (snd (signIn demo_net None ''http://here/'' (Some ''github'')
                      (Some [(''csrfToken'', JStr ''forged'')]) None)).
      r \<noteq> fetch_get ''/auth/csrf'' \<and> rq_method r = ''post'' \<and>
      rq_body r = Some [(''csrfToken'', ''abc''), (''callbackUrl'', ''http://here/'')]) \<and>
   (\<exists>r \<in> set (snd (signOut demo_net None ''http://here/'' None)).
      r \<noteq> fetch_get ''/auth/csrf'' \<and> rq_method r = ''post'' \<and>
      rq_body r = Some [(''csrfToken'', ''abc''), (''callbackUrl'', ''http://here/'')])"
proof -
  let ?b = "[(''csrfToken'', ''abc''), (''callbackUrl'', ''http://here/'')]"
  let ?in = "snd (signIn demo_net None ''http://here/'' (Some ''github'')
                      (Some [(''csrfToken'', JStr ''forged'')]) None)"
  let ?out = "snd (signOut demo_net None ''http://here/'' None)"
  have tok: "fetch_csrfToken demo_net None = Inr (Some (JStr ''abc''))"
    by (simp add: fetch_csrfToken_def demo_net_def fetch_get_def get_property_def)
  have i: "?in = [fetch_get ''/auth/csrf'', form_post ''/auth/signin/github?'' ?b]"
    by (simp add: signIn_trace tok basePath_def signInUrl_with_params_def signInUrl_def
        URLSearchParams_toString_def signIn_body_def URLSearchParams_of_record_def
        ToString_opt_def the_callbackUrl_def)
  have out: "?out = [fetch_get ''/auth/csrf'', form_post ''/auth/signout'' ?b]"
    by (simp add: signOut_trace tok basePath_def signOut_body_def URLSearchParams_of_record_def
        ToString_opt_def the_callbackUrl_def)
  have c: "csrf_checked demo_net None ?in \<and> csrf_checked demo_net None ?out"
    by (rule sign_requests_carry_fetched_csrfToken)
  have "rq_method (form_post ''/auth/signin/github?'' ?b) = ''post''"
    using c i by (simp add: csrf_checked_def basePath_def form_post_not_get)
  moreover have "rq_method (form_post ''/auth/signout'' ?b) = ''post''"
    using c out by (simp add: csrf_checked_def basePath_def form_post_not_get)
  ultimately show ?thesis
    unfolding i out by (simp add: form_post_not_get) (simp add: form_post_def)
qed

text \<open>
  C7.  For every \<open>providerId\<close>, a post that \<open>signIn\<close> issues goes to
  \<open>{basePath}/auth/callback/{providerId}\<close> when the provider is \<open>credentials\<close> and to
  \<open>{basePath}/auth/signin/{providerId}\<close> otherwise, followed by \<open>?\<close> and the
  \<open>authorizationParams\<close> in their form encoding; and \<open>signIn\<close> issues this post as soon
  as the CSRF token has been fetched.
\<close>

theorem signIn_posts_to_provider_url:
  "(\<forall>r \<in> set (snd (signIn net base href (Some providerId) options authorizationParams)).
      rq_method r = ''post'' \<longrightarrow>
      rq_url r =
        basePath base @
        (if providerId = ''credentials'' then ''/auth/callback/'' else ''/auth/signin/'') @
        providerId @ ''?'' @
        URLSearchParams_toString (case authorizationParams of None \<Rightarrow> [] | Some ps \<Rightarrow> ps)) \<and>
   (\<forall>tok. fetch_csrfToken net base = Inr tok \<longrightarrow>
      (\<exists>r \<in> set (snd (signIn net base href (Some providerId) options authorizationParams)).
         rq_method r = ''post''))"
  by (auto simp: signIn_trace signInUrl_with_params_def signInUrl_def form_post_def fetch_get_def
      split: sum.splits)

theorem signIn_posts_to_provider_url_witness:
  "(\<exists>r \<in> set (snd (signIn demo_net (Some ''/app'') ''http://here/'' (Some ''credentials'') None
                      (Some [(''scope'', ''a b'')]))).
      rq_method r = ''post'' \<and> rq_url r = ''/app/auth/callback/credentials?scope=a+b'') \<and>
   (\<exists>r \<in> set (snd (signIn demo_net (Some ''/app'') ''http://here/'' (Some ''github'') None None)).
      rq_method r = ''post'' \<and> rq_url r = ''/app/auth/signin/github?'')"
proof -
  have tok: "fetch_csrfToken demo_net (Some ''/app'') = Inr (Some (JStr ''abc''))"
    by (simp add: fetch_csrfToken_def demo_net_def fetch_get_def get_property_def)
  have enc: "URLSearchParams_toString [(''scope'', ''a b'')] = ''scope=a+b''"
    by (simp add: URLSearchParams_toString_def form_encode_def form_encode_byte_def
        form_unreserved_def)
  from signIn_posts_to_provider_url
         [of demo_net "Some ''/app''" "''http://here/''" "''credentials''" None
             "Some [(''scope'', ''a b'')]"] tok
  have a: "\<exists>r \<in> set (snd (signIn demo_net (Some ''/app'') ''http://here/'' (Some ''credentials'') None
                      (Some [(''scope'', ''a b'')]))).
      rq_method r = ''post'' \<and> rq_url r = ''/app/auth/callback/credentials?scope=a+b''"
    by (fastforce simp: enc basePath_def)
  from signIn_posts_to_provider_url
         [of demo_net "Some ''/app''" "''http://here/''" "''github''" None None] tok
  have b: "\<exists>r \<in> set (snd (signIn demo_net (Some ''/app'') ''http://here/'' (Some ''github'') None None)).
      rq_method r = ''post'' \<and> rq_url r = ''/app/auth/signin/github?''"
    by (fastforce simp: basePath_def URLSearchParams_toString_def)
  from a b show ?thesis by blast
qed

section \<open>Properties of \<open>generate-providers.js\<close>\<close>

text \<open>On a file name with a dot, the code computes the text before the first dot;
  on one without, the empty string.\<close>

lemma strippedProviderName_dot:
  assumes "CHR ''.'' \<in> set file"
  shows "strippedProviderName file = text_before_first_dot file"
proof -
  let ?n = "length (takeWhile (\<lambda>x. x \<noteq> CHR ''.'') file)"
  have "?n \<le> length file" by (rule length_takeWhile_le)
  then have "substring file 0 (int ?n) = take ?n file" by (rule substring_prefix)
  also have "\<dots> = takeWhile (\<lambda>x. x \<noteq> CHR ''.'') file"
    by (rule takeWhile_eq_take [symmetric])
  finally show ?thesis
    using assms by (simp add: strippedProviderName_def indexOf_present text_before_first_dot_def)
qed

lemma strippedProviderName_no_dot:
  "CHR ''.'' \<notin> set file \<Longrightarrow> strippedProviderName file = []"
  by (simp add: strippedProviderName_def indexOf_absent substring_negative)

lemma remove_quotes_quoted: "CHR 0x22 \<notin> set s \<Longrightarrow> remove_quotes (quoted s) = s"
  by (auto simp: remove_quotes_def quoted_def filter_id_conv)

lemma no_quote_in_base: "CHR 0x22 \<notin> set f \<Longrightarrow> CHR 0x22 \<notin> set (text_before_first_dot f)"
  by (auto simp: text_before_first_dot_def dest: set_takeWhileD)

lemma providers_base_names:
  assumes "\<forall>f \<in> set files. CHR ''.'' \<in> set f \<and> CHR 0x22 \<notin> set f"
  shows "providers files =
           map quoted (filter (\<lambda>b. b \<notin> set nonOAuthFile) (map text_before_first_dot files))"
  using assms
proof (induction files)
  case Nil
  then show ?case by (simp add: providers_def)
next
  case (Cons f fs)
  then have dot: "CHR ''.'' \<in> set f" and nq: "CHR 0x22 \<notin> set f"
    and rest: "\<forall>f \<in> set fs. CHR ''.'' \<in> set f \<and> CHR 0x22 \<notin> set f"
    by simp_all
  have s: "strippedProviderName f = text_before_first_dot f"
    using dot by (rule strippedProviderName_dot)
  have r: "remove_quotes (quoted (text_before_first_dot f)) = text_before_first_dot f"
    using nq by (simp add: remove_quotes_quoted no_quote_in_base)
  have "providers (f # fs) =
      (if text_before_first_dot f \<notin> set nonOAuthFile
       then quoted (text_before_first_dot f) # providers fs else providers fs)"
    by (simp add: providers_def s r)
  with Cons.IH [OF rest] show ?case by simp
qed

text \<open>
  For a directory in which every file name has a dot and none has a double quote,
  the members of the generated union are, in the order of the directory, the quoted
  texts before the first dot of the file names, without \<open>oauth-types\<close>, \<open>oauth\<close>,
  \<open>index\<close>, \<open>email\<close> and \<open>credentials\<close>; and the generated text is the declaration
  of \<open>OAuthProviderType\<close> as the union of exactly these members.
\<close>

lemma providers_are_base_names:
  assumes "\<forall>f \<in> set files. CHR ''.'' \<in> set f \<and> CHR 0x22 \<notin> set f"
  shows "providers files =
           map quoted (filter (\<lambda>b. b \<notin> set nonOAuthFile) (map text_before_first_dot files)) \<and>
         result files =
           [CHR 0x0A] @ ''// THIS FILE IS AUTOGENERATED. DO NOT EDIT.'' @ [CHR 0x0A] @
           ''export type OAuthProviderType = '' @ [CHR 0x0A] @ ''  | '' @
           join ([CHR 0x0A] @ ''  | '')
             (map quoted
                (filter (\<lambda>b. b \<notin> set nonOAuthFile) (map text_before_first_dot files)))"
proof
  show p: "providers files =
      map quoted (filter (\<lambda>b. b \<notin> set nonOAuthFile) (map text_before_first_dot files))"
    using assms by (rule providers_base_names)
  show "result files =
           [CHR 0x0A] @ ''// THIS FILE IS AUTOGENERATED. DO NOT EDIT.'' @ [CHR 0x0A] @
           ''export type OAuthProviderType = '' @ [CHR 0x0A] @ ''  | '' @
           join ([CHR 0x0A] @ ''  | '')
             (map quoted
                (filter (\<lambda>b. b \<notin> set nonOAuthFile) (map text_before_first_dot files)))"
    unfolding result_def p ..
qed

lemma providers_are_base_names_example:
  "providers [''github.ts'', ''index.ts'', ''oauth-types.ts'', ''azure-ad.test.ts'', ''email.ts''] =
     [quoted ''github'', quoted ''azure-ad'']"
proof -
  have h: "\<forall>f \<in> set [''github.ts'', ''index.ts'', ''oauth-types.ts'', ''azure-ad.test.ts'', ''email.ts''].
      CHR ''.'' \<in> set f \<and> CHR 0x22 \<notin> set f"
    by simp
  show ?thesis
    using providers_are_base_names [OF h]
    by (simp add: text_before_first_dot_def nonOAuthFile_def)
qed

text \<open>
  A double quote in a file name is stripped before the comparison with the five names:
  the file \<open>oauth".ts\<close> is left out of the union, though its base name is none of
  the five.
\<close>

lemma providers_quote_in_name:
  "text_before_first_dot
     [CHR ''o'', CHR ''a'', CHR ''u'', CHR ''t'', CHR ''h'', CHR 0x22, CHR ''.'', CHR ''t'', CHR ''s'']
     \<notin> set nonOAuthFile \<and>
   providers
     [[CHR ''o'', CHR ''a'', CHR ''u'', CHR ''t'', CHR ''h'', CHR 0x22, CHR ''.'', CHR ''t'', CHR ''s'']]
     = []"
  by (simp add: providers_def strippedProviderName_def substring_def quoted_def
      remove_quotes_def nonOAuthFile_def text_before_first_dot_def Let_def)

text \<open>
  C6, evaluated on the code.  The directory holds \<open>github.ts\<close> and a file without a
  dot, \<open>LICENSE\<close>.  For the latter \<open>indexOf\<close> gives \<open>-1\<close> and \<open>substring(0, -1)\<close> the
  empty string: the generated union has the two members \<open>"github"\<close> and \<open>""\<close>.  The
  empty name is the base name of no file of the directory, and none of the five
  excluded names.
\<close>

theorem providers_dotless_file_gives_empty_member:
  "providers [''github.ts'', ''LICENSE''] = [quoted ''github'', quoted ''''] \<and>
   '''' \<notin> set (map text_before_first_dot [''github.ts'', ''LICENSE'']) \<and>
   result [''github.ts'', ''LICENSE''] =
     [CHR 0x0A] @ ''// THIS FILE IS AUTOGENERATED. DO NOT EDIT.'' @ [CHR 0x0A] @
     ''export type OAuthProviderType = '' @ [CHR 0x0A] @
     ''  | '' @ quoted ''github'' @ [CHR 0x0A] @ ''  | '' @ quoted ''''"
  by (simp add: result_def providers_def strippedProviderName_def substring_def quoted_def
      remove_quotes_def nonOAuthFile_def text_before_first_dot_def Let_def)

section \<open>Properties of the MikroORM adapter\<close>

text \<open>
  Whatever the store, \<open>updateSession\<close> with an unknown session token raises the
  \<open>TypeError\<close> and changes nothing, and no call ever raises \<open>Session not found\<close>.
  \<open>useVerificationToken\<close> keeps the pairs of identifier and token unique.
\<close>

lemma find_None_iff_no_match: "List.find q rows = None \<longleftrightarrow> (\<forall>r \<in> set rows. \<not> q r)"
  by (induction rows) auto

lemma find_Some_member: "List.find q rows = Some r \<Longrightarrow> r \<in> set rows \<and> q r"
  by (induction rows) (auto split: if_splits)

lemma remove1_no_same_key:
  assumes "distinct (map f xs)" "v \<in> set xs" "x \<in> set (removeAndFlush v xs)"
  shows "f x \<noteq> f v"
proof -
  from assms(1) have d: "distinct xs" and inj: "inj_on f (set xs)"
    by (simp_all add: distinct_map)
  from assms(3) d have "x \<in> set xs" "x \<noteq> v"
    by (simp_all add: removeAndFlush_def)
  with inj assms(2) show ?thesis
    by (auto dest: inj_onD)
qed

lemma updateSession_unknown_token:
  assumes "\<forall>s \<in> set (sessions st). sessionToken s \<noteq> upd_sessionToken d"
  shows "updateSession d st = (Inl TypeError, st)"
proof -
  have "List.find (\<lambda>s. sessionToken s = upd_sessionToken d) (sessions st) = None"
    using assms by (simp add: find_None_iff_no_match)
  then show ?thesis
    by (simp add: updateSession_def findOne_def wrap_assign_def)
qed

lemma updateSession_never_not_found:
  "fst (updateSession d st) \<noteq> Inl (Error ''Session not found'')"
  by (simp add: updateSession_def wrap_assign_def Let_def split: option.splits)

lemma useVerificationToken_keeps_unique:
  assumes "unique_tokens st"
  shows "unique_tokens (snd (useVerificationToken p st))"
proof (cases "findOne (verificationTokens st) (matches p)")
  case None
  with assms show ?thesis by (simp add: useVerificationToken_def)
next
  case (Some v)
  from assms have d: "distinct (verificationTokens st)"
    by (simp add: unique_tokens_def distinct_map)
  then have "remove1 v (verificationTokens st) = filter (\<lambda>x. x \<noteq> v) (verificationTokens st)"
    by (simp add: distinct_remove1_removeAll removeAll_filter_not_eq) (metis)
  with assms Some show ?thesis
    by (simp add: useVerificationToken_def unique_tokens_def removeAndFlush_def distinct_map_filter)
qed

text \<open>
  C4, evaluated on the code.  A call of \<open>updateSession\<close> whose session token matches no
  stored session leaves the store unchanged, but the error it raises is the \<open>TypeError\<close>
  of the assignment on \<open>null\<close>; the statement that would raise \<open>Session not found\<close> is
  never reached.
\<close>

theorem updateSession_unknown_token_raises_TypeError:
  "updateSession \<lparr>upd_sessionToken = ''nope'', upd_userId = None, upd_expires = Some 5\<rparr>
       \<lparr>sessions = [\<lparr>session_id = ''s1'', userId = ''u1'', expires = 1, sessionToken = ''tok''\<rparr>],
        verificationTokens = []\<rparr>
   = (Inl TypeError,
       \<lparr>sessions = [\<lparr>session_id = ''s1'', userId = ''u1'', expires = 1, sessionToken = ''tok''\<rparr>],
        verificationTokens = []\<rparr>)"
  by (simp add: updateSession_def findOne_def wrap_assign_def)

text \<open>
  C10.  In a table that holds each pair of identifier and token at most once:
  if a verification token matches the parameters, \<open>useVerificationToken\<close> returns it
  and removes it, and a second call with the same parameters returns \<open>null\<close>; if none
  matches, the call returns \<open>null\<close> and the store is unchanged.
\<close>

theorem useVerificationToken_single_use:
  assumes "unique_tokens st"
  shows "((\<exists>v \<in> set (verificationTokens st). matches p v) \<longrightarrow>
            (\<exists>v st'. useVerificationToken p st = (Some v, st') \<and>
                v \<in> set (verificationTokens st) \<and> matches p v \<and>
                verificationTokens st' = remove1 v (verificationTokens st) \<and>
                sessions st' = sessions st \<and>
                useVerificationToken p st' = (None, st')))
       \<and> ((\<forall>v \<in> set (verificationTokens st). \<not> matches p v) \<longrightarrow>
            useVerificationToken p st = (None, st))"
proof (intro conjI impI)
  assume "\<exists>v \<in> set (verificationTokens st). matches p v"
  then obtain v where f: "List.find (matches p) (verificationTokens st) = Some v"
    by (cases "List.find (matches p) (verificationTokens st)")
       (auto simp: find_None_iff_no_match)
  then have mem: "v \<in> set (verificationTokens st)" and m: "matches p v"
    by (auto dest: find_Some_member)
  let ?st' = "st\<lparr>verificationTokens := removeAndFlush v (verificationTokens st)\<rparr>"
  have first: "useVerificationToken p st = (Some v, ?st')"
    using f by (simp add: useVerificationToken_def findOne_def)
  have "\<not> matches p x" if "x \<in> set (removeAndFlush v (verificationTokens st))" for x
  proof -
    have "(vt_identifier x, vt_token x) \<noteq> (vt_identifier v, vt_token v)"
      using remove1_no_same_key [OF assms [unfolded unique_tokens_def] mem that] .
    with m show ?thesis by (auto simp: matches_def)
  qed
  then have "List.find (matches p) (verificationTokens ?st') = None"
    by (simp add: find_None_iff_no_match)
  then have second: "useVerificationToken p ?st' = (None, ?st')"
    by (simp add: useVerificationToken_def findOne_def)
  show "\<exists>v st'. useVerificationToken p st = (Some v, st') \<and>
                v \<in> set (verificationTokens st) \<and> matches p v \<and>
                verificationTokens st' = remove1 v (verificationTokens st) \<and>
                sessions st' = sessions st \<and>
                useVerificationToken p st' = (None, st')"
    using first second mem m by (intro exI [of _ v] exI [of _ ?st']) (simp add: removeAndFlush_def)
next
  assume "\<forall>v \<in> set (verificationTokens st). \<not> matches p v"
  then have "List.find (matches p) (verificationTokens st) = None"
    by (simp add: find_None_iff_no_match)
  then show "useVerificationToken p st = (None, st)"
    by (simp add: useVerificationToken_def findOne_def)
qed

theorem useVerificationToken_single_use_witness:
  "unique_tokens demo_store \<and>
   useVerificationToken \<lparr>p_identifier = ''a@b.c'', p_token = ''t2''\<rparr> demo_store =
     (Some \<lparr>vt_identifier = ''a@b.c'', vt_token = ''t2'', vt_expires = 9\<rparr>,
      \<lparr>sessions = [], verificationTokens = [\<lparr>vt_identifier = ''a@b.c'', vt_token = ''t1'', vt_expires = 9\<rparr>]\<rparr>) \<and>
   useVerificationToken \<lparr>p_identifier = ''a@b.c'', p_token = ''t2''\<rparr>
      \<lparr>sessions = [], verificationTokens = [\<lparr>vt_identifier = ''a@b.c'', vt_token = ''t1'', vt_expires = 9\<rparr>]\<rparr> =
     (None, \<lparr>sessions = [], verificationTokens = [\<lparr>vt_identifier = ''a@b.c'', vt_token = ''t1'', vt_expires = 9\<rparr>]\<rparr>) \<and>
   useVerificationToken \<lparr>p_identifier = ''a@b.c'', p_token = ''t3''\<rparr> demo_store = (None, demo_store)"
proof -
  have u: "unique_tokens demo_store" by (simp add: unique_tokens_def demo_store_def)
  have m: "\<exists>v \<in> set (verificationTokens demo_store). matches \<lparr>p_identifier = ''a@b.c'', p_token = ''t2''\<rparr> v"
    by (simp add: demo_store_def matches_def)
  have n: "\<forall>v \<in> set (verificationTokens demo_store). \<not> matches \<lparr>p_identifier = ''a@b.c'', p_token = ''t3''\<rparr> v"
    by (simp add: demo_store_def matches_def)
  from useVerificationToken_single_use [OF u, of "\<lparr>p_identifier = ''a@b.c'', p_token = ''t2''\<rparr>"] m
  obtain v st' where
    "useVerificationToken \<lparr>p_identifier = ''a@b.c'', p_token = ''t2''\<rparr> demo_store = (Some v, st')"
    "useVerificationToken \<lparr>p_identifier = ''a@b.c'', p_token = ''t2''\<rparr> st' = (None, st')"
    by blast
  moreover have "useVerificationToken \<lparr>p_identifier = ''a@b.c'', p_token = ''t2''\<rparr> demo_store =
     (Some \<lparr>vt_identifier = ''a@b.c'', vt_token = ''t2'', vt_expires = 9\<rparr>,
      \<lparr>sessions = [], verificationTokens = [\<lparr>vt_identifier = ''a@b.c'', vt_token = ''t1'', vt_expires = 9\<rparr>]\<rparr>)"
    by (simp add: useVerificationToken_def findOne_def demo_store_def matches_def removeAndFlush_def)
  moreover have "useVerificationToken \<lparr>p_identifier = ''a@b.c'', p_token = ''t3''\<rparr> demo_store = (None, demo_store)"
    using useVerificationToken_single_use [OF u, of "\<lparr>p_identifier = ''a@b.c'', p_token = ''t3''\<rparr>"] n
    by blast
  ultimately show ?thesis using u by simp
qed

end
